theory Spec2Isabelle
  imports Complex_Main
begin

section \<open>The notebook's distance-matrix functions\<close>

text \<open>
  The notebook \<^verbatim>\<open>2dv516-python-2-part-1-broadcasting.ipynb\<close> defines, in one code cell,
  \<^verbatim>\<open>eucl_dist\<close>, \<open>loop1\<close>, \<open>loop2\<close>, \<open>broadcast1\<close> and \<open>broadcast2\<close>, and in an earlier cell
  \<^verbatim>\<open>mult_vect\<close> and \<open>mult_loop\<close> on vectors. All of them work on \<open>float64\<close> arrays of the
  array library.

  A 1-D array is a list of its elements; a 2-D array of shape \<open>(n, d)\<close> is the list of its
  \<open>n\<close> rows, each a 1-D array of length \<open>d\<close> (\<open>has_shape\<close> below; the array library only
  builds such rectangular arrays). \<open>X.shape[0]\<close> is \<open>length X\<close> and \<open>X[i]\<close> is \<open>X ! i\<close>.
\<close>

subsection \<open>What the array library provides\<close>

text \<open>
  The element type \<open>'a\<close> stands for \<open>float64\<close>. The arithmetic of the array library is not
  part of the notebook, so its primitives are a parameter of every function: subtraction,
  multiplication, \<^verbatim>\<open>** 2\<close>, the reduction \<^verbatim>\<open>np.sum\<close> of a 1-D array, \<^verbatim>\<open>np.sqrt\<close>, and the
  unspecified content of a buffer that \<^verbatim>\<open>np.empty\<close> has just allocated (by flat offset).
  An operation on whole arrays applies its primitive element by element.

  \<^verbatim>\<open>** 2\<close> is two primitives. On a \<open>float64\<close> scalar, as in \<open>eucl_dist\<close>, it is the scalar
  power \<open>np_scalar_pow2\<close> (the C library's \<open>pow\<close>); on an array, as in \<open>loop2\<close>, \<open>broadcast1\<close>
  and \<open>broadcast2\<close>, it is the elementwise square \<open>np_pow2\<close> (the product \<open>x * x\<close>). The two
  need not return the same \<open>float64\<close>.
\<close>

record 'a numpy =
  np_sub :: "'a \<Rightarrow> 'a \<Rightarrow> 'a"
  np_mul :: "'a \<Rightarrow> 'a \<Rightarrow> 'a"
  np_scalar_pow2 :: "'a \<Rightarrow> 'a"
  np_pow2 :: "'a \<Rightarrow> 'a"
  np_sum :: "'a list \<Rightarrow> 'a"
  np_sqrt :: "'a \<Rightarrow> 'a"
  np_empty :: "nat \<Rightarrow> 'a"

datatype error = IndexError | ValueError

text \<open>\<^verbatim>\<open>np.empty(n)\<close> and \<^verbatim>\<open>np.empty((n, m))\<close>: arrays of the given shape, content unspecified.\<close>

definition empty1 :: "'a numpy \<Rightarrow> nat \<Rightarrow> 'a list" where
  "empty1 N n = map (np_empty N) [0..<n]"

definition empty2 :: "'a numpy \<Rightarrow> nat \<Rightarrow> nat \<Rightarrow> 'a list list" where
  "empty2 N n m = map (\<lambda>i. map (\<lambda>j. np_empty N (i * m + j)) [0..<m]) [0..<n]"

text \<open>
  A binary operation on two 1-D arrays: element by element when the lengths agree, an array
  of length 1 is stretched to the other's length, and any other pair of lengths raises
  \<^verbatim>\<open>ValueError\<close> (operands could not be broadcast together).
\<close>

definition ufunc2 :: "('a \<Rightarrow> 'a \<Rightarrow> 'a) \<Rightarrow> 'a list \<Rightarrow> 'a list \<Rightarrow> error + 'a list" where
  "ufunc2 f x y =
     (if length x = length y then Inr (map2 f x y)
      else if length x = 1 then Inr (map (f (hd x)) y)
      else if length y = 1 then Inr (map (\<lambda>a. f a (hd y)) x)
      else Inl ValueError)"

text \<open>\<^verbatim>\<open>for i in range(n): body\<close> over a state, stopping at the first exception.\<close>

fun for_in :: "nat list \<Rightarrow> (nat \<Rightarrow> 's \<Rightarrow> error + 's) \<Rightarrow> 's \<Rightarrow> error + 's" where
  "for_in [] body s = Inr s"
| "for_in (i # is) body s =
     (case body i s of Inl e \<Rightarrow> Inl e | Inr s' \<Rightarrow> for_in is body s')"

text \<open>Applying an operation that may raise to every element, in order.\<close>

fun traverse :: "('a \<Rightarrow> error + 'b) \<Rightarrow> 'a list \<Rightarrow> error + 'b list" where
  "traverse f [] = Inr []"
| "traverse f (x # xs) =
     (case f x of
        Inl e \<Rightarrow> Inl e
      | Inr v \<Rightarrow> (case traverse f xs of Inl e \<Rightarrow> Inl e | Inr vs \<Rightarrow> Inr (v # vs)))"

text \<open>\<^verbatim>\<open>Z[i, j] = v\<close> on a 2-D array.\<close>

definition set2 :: "'a list list \<Rightarrow> nat \<Rightarrow> nat \<Rightarrow> 'a \<Rightarrow> 'a list list" where
  "set2 Z i j v = Z[i := (Z ! i)[j := v]]"

definition has_shape :: "'a list list \<Rightarrow> nat \<Rightarrow> nat \<Rightarrow> bool" where
  "has_shape X n d \<longleftrightarrow> length X = n \<and> (\<forall>r \<in> set X. length r = d)"

subsection \<open>Elementwise product of two vectors\<close>

text \<open>
  \<^verbatim>\<open>
  def mult_vect(x, y):
      return x * y

  def mult_loop(x, y):
      z = np.empty(x.shape)
      for i in range(x.shape[0]):
          z[i] = x[i] * y[i]
      return z
  \<close>
  \<open>y[i]\<close> raises \<^verbatim>\<open>IndexError\<close> when \<open>i\<close> is not below the length of \<open>y\<close>.
\<close>

definition mult_vect :: "'a numpy \<Rightarrow> 'a list \<Rightarrow> 'a list \<Rightarrow> error + 'a list" where
  "mult_vect N x y = ufunc2 (np_mul N) x y"

definition mult_loop :: "'a numpy \<Rightarrow> 'a list \<Rightarrow> 'a list \<Rightarrow> error + 'a list" where
  "mult_loop N x y =
     for_in [0..<length x]
       (\<lambda>i z. if i < length y then Inr (z[i := np_mul N (x ! i) (y ! i)]) else Inl IndexError)
       (empty1 N (length x))"

subsection \<open>Euclidean distance and the four distance matrices\<close>

text \<open>
  \<^verbatim>\<open>
  def eucl_dist(x, y):
      z = np.empty(x.shape)
      for i in range(x.shape[0]):
          z[i] = (x[i] - y[i])**2
      return np.sqrt(np.sum(z))
  \<close>
\<close>

definition eucl_dist :: "'a numpy \<Rightarrow> 'a list \<Rightarrow> 'a list \<Rightarrow> error + 'a" where
  "eucl_dist N x y =
     (case for_in [0..<length x]
             (\<lambda>i z. if i < length y
                     then Inr (z[i := np_scalar_pow2 N (np_sub N (x ! i) (y ! i))])
                     else Inl IndexError)
             (empty1 N (length x)) of
        Inl e \<Rightarrow> Inl e
      | Inr z \<Rightarrow> Inr (np_sqrt N (np_sum N z)))"

text \<open>
  \<^verbatim>\<open>
  def loop1(X):
      n = X.shape[0]
      Z = np.empty((n, n))
      for i in range(n):
          for j in range(n):
              Z[i, j] = eucl_dist(X[i], X[j])
      return Z
  \<close>
\<close>

definition loop1 :: "'a numpy \<Rightarrow> 'a list list \<Rightarrow> error + 'a list list" where
  "loop1 N X =
     (let n = length X in
      for_in [0..<n]
        (\<lambda>i. for_in [0..<n]
           (\<lambda>j Z. case eucl_dist N (X ! i) (X ! j) of
                     Inl e \<Rightarrow> Inl e
                   | Inr v \<Rightarrow> Inr (set2 Z i j v)))
        (empty2 N n n))"

text \<open>
  \<^verbatim>\<open>
  def loop2(X):
      n = X.shape[0]
      Z = np.empty((n, n))
      for i in range(n):
          for j in range(n):
              Z[i, j] = np.sqrt(np.sum((X[i] - X[j])**2))
      return Z
  \<close>
\<close>

definition loop2 :: "'a numpy \<Rightarrow> 'a list list \<Rightarrow> error + 'a list list" where
  "loop2 N X =
     (let n = length X in
      for_in [0..<n]
        (\<lambda>i. for_in [0..<n]
           (\<lambda>j Z. case ufunc2 (np_sub N) (X ! i) (X ! j) of
                     Inl e \<Rightarrow> Inl e
                   | Inr u \<Rightarrow> Inr (set2 Z i j (np_sqrt N (np_sum N (map (np_pow2 N) u))))))
        (empty2 N n n))"

text \<open>
  \<^verbatim>\<open>
  def broadcast1(X):
      n = X.shape[0]
      Z = np.empty((n, n))
      for i in range(n):
          Z[i] = np.sqrt(np.sum((X[i] - X)**2, axis=-1))
      return Z
  \<close>
  \<open>X[i] - X\<close> subtracts every row of \<open>X\<close> from the row \<open>X[i]\<close>; the sum along the last axis
  reduces each row; the result has one entry per row of \<open>X\<close>, so it fits the row \<open>Z[i]\<close>.
\<close>

definition broadcast1 :: "'a numpy \<Rightarrow> 'a list list \<Rightarrow> error + 'a list list" where
  "broadcast1 N X =
     (let n = length X in
      for_in [0..<n]
        (\<lambda>i Z. case traverse (ufunc2 (np_sub N) (X ! i)) X of
                  Inl e \<Rightarrow> Inl e
                | Inr U \<Rightarrow> Inr (Z[i := map (np_sqrt N) (map (np_sum N) (map (map (np_pow2 N)) U))]))
        (empty2 N n n))"


subsection \<open>The distance matrix as the specification words it\<close>

text \<open>
  The entry the specification asks for, \<open>sqrt(sum over k in [0, d) of (x[k] - y[k])^2)\<close>,
  over the library's primitives, and the matrix of these entries for all pairs of rows.
\<close>

definition spec_entry :: "'a numpy \<Rightarrow> 'a list \<Rightarrow> 'a list \<Rightarrow> 'a" where
  "spec_entry N x y =
     np_sqrt N (np_sum N (map (\<lambda>k. np_pow2 N (np_sub N (x ! k) (y ! k))) [0..<length x]))"

definition spec_matrix :: "'a numpy \<Rightarrow> 'a list list \<Rightarrow> 'a list list" where
  "spec_matrix N X =
     map (\<lambda>i. map (\<lambda>j. spec_entry N (X ! i) (X ! j)) [0..<length X]) [0..<length X]"

text \<open>The same entry and matrix with the scalar power, as \<open>eucl_dist\<close> computes them.\<close>

definition scalar_entry :: "'a numpy \<Rightarrow> 'a list \<Rightarrow> 'a list \<Rightarrow> 'a" where
  "scalar_entry N x y =
     np_sqrt N (np_sum N (map (\<lambda>k. np_scalar_pow2 N (np_sub N (x ! k) (y ! k))) [0..<length x]))"


subsection \<open>Interpretations of the primitives\<close>

text \<open>
  The primitives read in exact real arithmetic, for evaluating the functions at concrete
  inputs. A fresh buffer is taken to hold zeros here.
\<close>

definition exact :: "real numpy" where
  "exact = \<lparr>np_sub = (\<lambda>a b. a - b), np_mul = (\<lambda>a b. a * b),
            np_scalar_pow2 = (\<lambda>a. a * a), np_pow2 = (\<lambda>a. a * a),
            np_sum = sum_list, np_sqrt = sqrt, np_empty = (\<lambda>_. 0)\<rparr>"

text \<open>
  A primitive given by a table of its \<open>float64\<close> results (IEEE 754 binary64, round to nearest,
  ties to even) at the arguments where the rounded result is not the exact one; at every
  other argument it is the exact operation. A \<open>float64\<close> is the rational number it denotes.
\<close>

definition tabulated :: "('k \<times> 'v) list \<Rightarrow> ('k \<Rightarrow> 'v) \<Rightarrow> 'k \<Rightarrow> 'v" where
  "tabulated t f k = (case map_of t k of Some v \<Rightarrow> v | None \<Rightarrow> f k)"


definition float64_squares :: "real numpy" where
  "float64_squares =
     \<lparr>np_sub = (\<lambda>a b. a - b), np_mul = (\<lambda>a b. a * b),
      np_scalar_pow2 = tabulated
        [(2297736529884427 / 9007199254740992, 2344610355094069 / 36028797018963968),
         (- (2297736529884427 / 9007199254740992), 2344610355094069 / 36028797018963968)]
        (\<lambda>a. a * a),
      np_pow2 = tabulated
        [(2297736529884427 / 9007199254740992, 4689220710188139 / 72057594037927936),
         (- (2297736529884427 / 9007199254740992), 4689220710188139 / 72057594037927936)]
        (\<lambda>a. a * a),
      np_sum = tabulated
        [([2344610355094069 / 36028797018963968, 1 / 4], 2837952402458765 / 9007199254740992),
         ([4689220710188139 / 72057594037927936, 1 / 4], 5675904804917531 / 18014398509481984)]
        sum_list,
      np_sqrt = tabulated
        [(2837952402458765 / 9007199254740992, 1263971982591411 / 2251799813685248),
         (5675904804917531 / 18014398509481984, 5055887930365645 / 9007199254740992)]
        sqrt,
      np_empty = (\<lambda>_. 0)\<rparr>"

text \<open>
  The one-column dataset \<open>[[1.0], [-(2**-54 + 2**-56)], [-0.5 - 1.5 * 2**-52]]\<close> and the
  library's results on it. The differences \<open>1 + 5 * 2**-56\<close>, \<open>0.5 + 1.1875 * 2**-52\<close> and
  \<open>1.5 + 1.5 * 2**-52\<close> round to \<open>1\<close>, \<open>0.5 + 2**-52\<close> and \<open>1.5 + 2**-51\<close>; the squares of
  the last two round to \<open>0.25 + 2**-52\<close> and \<open>2.25 + 3 * 2**-51\<close>, whose square roots
  round back to \<open>0.5 + 2**-52\<close> and \<open>1.5 + 2**-51\<close>. The sum of a single element is that
  element.
\<close>

definition triangle_data :: "real list list" where
  "triangle_data = [[1], [- (5 / 72057594037927936)], [- (4503599627370499 / 9007199254740992)]]"

definition float64_triangle :: "real numpy" where
  "float64_triangle =
     \<lparr>np_sub = curry (tabulated
        [((1, - (5 / 72057594037927936)), 1),
         ((- (5 / 72057594037927936), 1), - 1),
         ((- (5 / 72057594037927936), - (4503599627370499 / 9007199254740992)),
            2251799813685249 / 4503599627370496),
         ((- (4503599627370499 / 9007199254740992), - (5 / 72057594037927936)),
            - (2251799813685249 / 4503599627370496)),
         ((1, - (4503599627370499 / 9007199254740992)), 3377699720527873 / 2251799813685248),
         ((- (4503599627370499 / 9007199254740992), 1), - (3377699720527873 / 2251799813685248))]
        (\<lambda>(a, b). a - b)),
      np_mul = (\<lambda>a b. a * b),
      np_scalar_pow2 = (\<lambda>a. a * a),
      np_pow2 = tabulated
        [(2251799813685249 / 4503599627370496, 1125899906842625 / 4503599627370496),
         (- (2251799813685249 / 4503599627370496), 1125899906842625 / 4503599627370496),
         (3377699720527873 / 2251799813685248, 5066549580791811 / 2251799813685248),
         (- (3377699720527873 / 2251799813685248), 5066549580791811 / 2251799813685248)]
        (\<lambda>a. a * a),
      np_sum = sum_list,
      np_sqrt = tabulated
        [(1125899906842625 / 4503599627370496, 2251799813685249 / 4503599627370496),
         (5066549580791811 / 2251799813685248, 3377699720527873 / 2251799813685248)]
        sqrt,
      np_empty = (\<lambda>_. 0)\<rparr>"

section \<open>Loops that fill a buffer\<close>

lemma for_in_append:
  "for_in (xs @ ys) body s =
     (case for_in xs body s of Inl e \<Rightarrow> Inl e | Inr s' \<Rightarrow> for_in ys body s')"
  by (induction xs arbitrary: s) (auto split: sum.splits)

lemma for_in_fill:
  assumes "\<And>i z. i < n \<Longrightarrow> length z = length z0 \<Longrightarrow> z ! i = z0 ! i \<Longrightarrow> body i z = Inr (z[i := f i])"
    and "n \<le> length z0"
  shows "for_in [0..<n] body z0 = Inr (map f [0..<n] @ drop n z0)"
  using assms
proof (induction n)
  case 0
  then show ?case by simp
next
  case (Suc n)
  let ?z = "map f [0..<n] @ drop n z0"
  have prev: "for_in [0..<n] body z0 = Inr ?z"
    using Suc by simp
  have n: "n < length z0" using Suc.prems(2) by simp
  then have d: "drop n z0 = z0 ! n # drop (Suc n) z0"
    by (simp add: Cons_nth_drop_Suc)
  then have upd: "?z[n := f n] = map f [0..<Suc n] @ drop (Suc n) z0"
    by (simp add: list_update_append)
  have len: "length ?z = length z0" using n by simp
  have nth: "?z ! n = z0 ! n" using d by (simp add: nth_append)
  have "body n ?z = Inr (?z[n := f n])"
    using Suc.prems(1)[of n ?z] len nth by simp
  then show ?case
    using prev upd by (simp add: for_in_append)
qed

lemma for_in_fill_row:
  assumes "\<And>j Z. j < m \<Longrightarrow> body j Z = Inr (set2 Z i j (f j))"
    and "i < length Z0" and "m \<le> length (Z0 ! i)"
  shows "for_in [0..<m] body Z0 = Inr (Z0[i := map f [0..<m] @ drop m (Z0 ! i)])"
  using assms
proof (induction m)
  case 0
  then show ?case by simp
next
  case (Suc m)
  let ?r = "map f [0..<m] @ drop m (Z0 ! i)"
  have prev: "for_in [0..<m] body Z0 = Inr (Z0[i := ?r])"
    using Suc by simp
  have "m < length (Z0 ! i)" using Suc.prems(3) by simp
  then have "drop m (Z0 ! i) = Z0 ! i ! m # drop (Suc m) (Z0 ! i)"
    by (simp add: Cons_nth_drop_Suc)
  then have "?r[m := f m] = map f [0..<Suc m] @ drop (Suc m) (Z0 ! i)"
    by (simp add: list_update_append)
  then have "set2 (Z0[i := ?r]) i m (f m)
               = Z0[i := map f [0..<Suc m] @ drop (Suc m) (Z0 ! i)]"
    using Suc.prems(2) by (simp add: set2_def)
  then show ?case
    using prev Suc.prems(1)[of m] by (simp add: for_in_append)
qed

text \<open>
  A double loop that writes \<open>Z[i, j] = f i j\<close> for every \<open>i\<close> and \<open>j\<close> below \<open>n\<close> into a fresh
  \<open>n\<close>-by-\<open>n\<close> buffer overwrites every cell: nothing of the buffer's first content is left.
\<close>

lemma length_empty2 [simp]: "length (empty2 N n m) = n"
  by (simp add: empty2_def)

lemma length_empty2_row [simp]: "i < n \<Longrightarrow> length (empty2 N n m ! i) = m"
  by (simp add: empty2_def)

lemma for_in_fill_matrix:
  assumes "\<And>i j Z. i < n \<Longrightarrow> j < n \<Longrightarrow> body i j Z = Inr (set2 Z i j (f i j))"
  shows "for_in [0..<n] (\<lambda>i. for_in [0..<n] (body i)) (empty2 N n n)
           = Inr (map (\<lambda>i. map (f i) [0..<n]) [0..<n])"
proof -
  have row: "for_in [0..<n] (body i) Z = Inr (Z[i := map (f i) [0..<n]])"
    if "i < n" "length Z = length (empty2 N n n)" "Z ! i = empty2 N n n ! i" for i Z
    using for_in_fill_row[of n "body i" i "f i" Z] assms that by simp
  show ?thesis
    using for_in_fill[of n "empty2 N n n" "\<lambda>i. for_in [0..<n] (body i)" "\<lambda>i. map (f i) [0..<n]"] row
    by simp
qed


lemma map2_by_index:
  "length x = length y \<Longrightarrow> map2 f x y = map (\<lambda>k. f (x ! k) (y ! k)) [0..<length x]"
  by (rule nth_equalityI) auto

section \<open>What each function returns on a rectangular array\<close>

lemma ufunc2_same_length:
  "length x = length y \<Longrightarrow> ufunc2 f x y = Inr (map (\<lambda>k. f (x ! k) (y ! k)) [0..<length x])"
  by (simp add: ufunc2_def map2_by_index)

lemma eucl_dist_spec:
  assumes "length x \<le> length y"
  shows "eucl_dist N x y = Inr (scalar_entry N x y)"
proof -
  let ?f = "\<lambda>i. np_scalar_pow2 N (np_sub N (x ! i) (y ! i))"
  have "for_in [0..<length x]
          (\<lambda>i z. if i < length y then Inr (z[i := ?f i]) else Inl IndexError)
          (empty1 N (length x))
        = Inr (map ?f [0..<length x] @ drop (length x) (empty1 N (length x)))"
    using assms by (intro for_in_fill) (auto simp: empty1_def)
  then show ?thesis
    by (simp add: eucl_dist_def scalar_entry_def empty1_def)
qed

text \<open>A shorter \<open>y\<close> makes the read \<open>y[len(y)]\<close> fail: the exception leaves \<open>eucl_dist\<close>.\<close>

lemma eucl_dist_short_y:
  assumes "length y < length x"
  shows "eucl_dist N x y = Inl IndexError"
proof -
  let ?body = "\<lambda>i z. if i < length y
                     then Inr (z[i := np_scalar_pow2 N (np_sub N (x ! i) (y ! i))])
                     else Inl IndexError"
  have "[0..<length x] = [0..<length y] @ [length y..<length x]"
    using assms upt_add_eq_append[of 0 "length y" "length x - length y"] by simp
  then have split: "[0..<length x] = [0..<length y] @ length y # [Suc (length y)..<length x]"
    using assms by (simp add: upt_conv_Cons)
  have "for_in [0..<length y] ?body (empty1 N (length x))
          = Inr (map (\<lambda>i. np_scalar_pow2 N (np_sub N (x ! i) (y ! i))) [0..<length y]
                   @ drop (length y) (empty1 N (length x)))"
    using assms by (intro for_in_fill) (auto simp: empty1_def)
  then have "for_in [0..<length x] ?body (empty1 N (length x)) = Inl IndexError"
    by (simp add: split for_in_append)
  then show ?thesis
    by (simp add: eucl_dist_def)
qed

lemma sub_row_spec:
  assumes "length x = length y"
  shows "(case ufunc2 (np_sub N) x y of
            Inl e \<Rightarrow> Inl e
          | Inr u \<Rightarrow> Inr (h (np_sqrt N (np_sum N (map (np_pow2 N) u)))))
         = Inr (h (spec_entry N x y))"
  using assms by (simp add: ufunc2_same_length spec_entry_def comp_def)

lemma has_shape_nth: "has_shape X n d \<Longrightarrow> i < n \<Longrightarrow> length (X ! i) = d"
  by (simp add: has_shape_def)





lemma loop2_spec:
  assumes "has_shape X n d"
  shows "loop2 N X = Inr (spec_matrix N X)"
proof -
  have n: "length X = n" using assms by (simp add: has_shape_def)
  have "(case ufunc2 (np_sub N) (X ! i) (X ! j) of
           Inl e \<Rightarrow> Inl e
         | Inr u \<Rightarrow> Inr (set2 Z i j (np_sqrt N (np_sum N (map (np_pow2 N) u)))))
          = Inr (set2 Z i j (spec_entry N (X ! i) (X ! j)))"
    if "i < n" "j < n" for i j and Z :: "'a list list"
    using that has_shape_nth[OF assms] by (intro sub_row_spec) simp
  then show ?thesis
    unfolding loop2_def spec_matrix_def Let_def n
    by (intro for_in_fill_matrix) simp
qed





lemma spec_matrix_shape: "has_shape (spec_matrix N X) (length X) (length X)"
  by (auto simp: has_shape_def spec_matrix_def)

lemma spec_matrix_nth:
  "i < length X \<Longrightarrow> j < length X \<Longrightarrow> spec_matrix N X ! i ! j = spec_entry N (X ! i) (X ! j)"
  by (simp add: spec_matrix_def)

lemma sqrt_25: "sqrt 25 = 5"
  by (rule real_sqrt_unique) simp_all

lemma two_points: "has_shape [[0, 0], [3, 4 :: real]] 2 2"
  by (simp add: has_shape_def)

section \<open>The claims\<close>




text \<open>
  C2. For every dataset \<open>X\<close> of shape \<open>(n, d)\<close>, \<open>loop2\<close> returns an \<open>n\<close>-by-\<open>n\<close> matrix \<open>M\<close> with
  \<open>M[i][j] = sqrt(sum over k in [0, d) of (X[i][k] - X[j][k])^2)\<close> for all \<open>i\<close>, \<open>j\<close> below \<open>n\<close>,
  the subtraction, square, sum and square root being the library's.
\<close>

theorem loop2_entry_formula:
  assumes "has_shape X n d"
  shows "\<exists>M. loop2 N X = Inr M \<and> has_shape M n n \<and>
           (\<forall>i<n. \<forall>j<n. M ! i ! j =
              np_sqrt N (np_sum N (map (\<lambda>k. np_pow2 N (np_sub N (X ! i ! k) (X ! j ! k))) [0..<d])))"
proof -
  have n: "length X = n" using assms by (simp add: has_shape_def)
  have "spec_matrix N X ! i ! j =
          np_sqrt N (np_sum N (map (\<lambda>k. np_pow2 N (np_sub N (X ! i ! k) (X ! j ! k))) [0..<d]))"
    if "i < n" "j < n" for i j
    using that n has_shape_nth[OF assms] by (simp add: spec_matrix_nth spec_entry_def)
  moreover have "has_shape (spec_matrix N X) n n"
    using spec_matrix_shape[of N X] n by simp
  ultimately show ?thesis
    using loop2_spec[OF assms, of N] by simp
qed

theorem loop2_entry_formula_witness:
  "has_shape [[0, 0], [3, 4 :: real]] 2 2 \<and>
   (\<exists>M. loop2 exact [[0, 0], [3, 4]] = Inr M \<and> has_shape M 2 2
        \<and> M ! 0 ! 0 = 0 \<and> M ! 0 ! 1 = 5 \<and> M ! 1 ! 0 = 5 \<and> M ! 1 ! 1 = 0)"
proof -
  obtain M where M: "loop2 exact [[0, 0], [3, 4]] = Inr M" "has_shape M 2 2"
    and e: "\<forall>i<2. \<forall>j<2. M ! i ! j =
              np_sqrt exact (np_sum exact
                (map (\<lambda>k. np_pow2 exact (np_sub exact ([[0, 0], [3, 4]] ! i ! k) ([[0, 0], [3, 4]] ! j ! k)))
                   [0..<2]))"
    using loop2_entry_formula[OF two_points, of exact] by blast
  have two: "[0..<2] = [0, 1]"
    by (simp add: upt_rec[of _ "numeral _"])
  have "M ! 0 ! 0 = 0" "M ! 0 ! 1 = 5" "M ! 1 ! 0 = 5" "M ! 1 ! 1 = 0"
    using e by (simp_all add: two exact_def sqrt_25)
  then show ?thesis
    using M two_points by blast
qed

text \<open>
  C3, as amended. \<open>loop2\<close> checks nothing about its input and never signals an invalid
  input: on every rectangular dataset of shape \<open>(n, d)\<close>, the empty one (\<open>n = 0\<close>) included,
  it returns an \<open>n\<close>-by-\<open>n\<close> matrix and raises no error.
\<close>

theorem loop2_never_raises:
  assumes "has_shape X n d"
  shows "\<exists>M. loop2 N X = Inr M \<and> has_shape M n n"
proof -
  have "has_shape (spec_matrix N X) n n"
    using spec_matrix_shape[of N X] assms by (simp add: has_shape_def)
  then show ?thesis
    using loop2_spec[OF assms, of N] by simp
qed

theorem loop2_never_raises_witness:
  "has_shape ([] :: real list list) 0 3 \<and>
   (\<exists>M. loop2 exact [] = Inr M \<and> has_shape M 0 0)"
proof -
  have "has_shape ([] :: real list list) 0 3"
    by (simp add: has_shape_def)
  then show ?thesis
    using loop2_never_raises[of "[]" 0 3 exact] by simp
qed

text \<open>
  C3, as the specification states it, fails: on the empty dataset \<open>loop2\<close> returns the empty
  matrix instead of failing.
\<close>

theorem loop2_empty_is_no_error: "loop2 exact [] = Inr []"
  by (simp add: loop2_def empty2_def)

text \<open>
  C4. For every well-formed dataset the matrix returned by \<open>loop2\<close> is symmetric,
  \<open>M[i][j] = M[j][i]\<close>, given that on the dataset's values the square of a difference does
  not depend on the order of the operands (as in exact and in IEEE arithmetic).
\<close>

theorem loop2_symmetric:
  assumes "has_shape X n d"
    and "\<And>a b. a \<in> set (concat X) \<Longrightarrow> b \<in> set (concat X) \<Longrightarrow>
           np_pow2 N (np_sub N a b) = np_pow2 N (np_sub N b a)"
  shows "\<exists>M. loop2 N X = Inr M \<and> (\<forall>i<n. \<forall>j<n. M ! i ! j = M ! j ! i)"
proof -
  have n: "length X = n" using assms(1) by (simp add: has_shape_def)
  have "spec_entry N (X ! i) (X ! j) = spec_entry N (X ! j) (X ! i)"
    if "i < n" "j < n" for i j
  proof -
    have len: "length (X ! i) = d" "length (X ! j) = d"
      using that has_shape_nth[OF assms(1)] by simp_all
    have "np_pow2 N (np_sub N (X ! i ! k) (X ! j ! k)) = np_pow2 N (np_sub N (X ! j ! k) (X ! i ! k))"
      if "k < d" for k
    proof (rule assms(2))
      show "X ! i ! k \<in> set (concat X)"
        using \<open>i < n\<close> \<open>k < d\<close> len n by (auto intro!: bexI[of _ "X ! i"])
      show "X ! j ! k \<in> set (concat X)"
        using \<open>j < n\<close> \<open>k < d\<close> len n by (auto intro!: bexI[of _ "X ! j"])
    qed
    then have "map (\<lambda>k. np_pow2 N (np_sub N (X ! i ! k) (X ! j ! k))) [0..<d]
                = map (\<lambda>k. np_pow2 N (np_sub N (X ! j ! k) (X ! i ! k))) [0..<d]"
      by simp
    then show ?thesis
      by (simp only: spec_entry_def len)
  qed
  then show ?thesis
    using loop2_spec[OF assms(1), of N] n by (simp add: spec_matrix_nth)
qed

theorem loop2_symmetric_witness:
  "has_shape [[0, 0], [3, 4 :: real]] 2 2 \<and>
   (\<forall>a b :: real. np_pow2 exact (np_sub exact a b) = np_pow2 exact (np_sub exact b a)) \<and>
   (\<exists>M. loop2 exact [[0, 0], [3, 4]] = Inr M \<and> M ! 0 ! 1 = M ! 1 ! 0)"
proof -
  have sq: "np_pow2 exact (np_sub exact a b) = np_pow2 exact (np_sub exact b a)" for a b :: real
    by (simp add: exact_def algebra_simps)
  then show ?thesis
    using loop2_symmetric[OF two_points, of exact] two_points by auto
qed

text \<open>
  C5. For every well-formed dataset every diagonal entry of the matrix returned by \<open>loop2\<close>
  is exactly zero, \<open>M[i][i] = 0\<close>, given that each value of the dataset minus itself is zero
  and that the square, the sum of \<open>d\<close> zeros and the square root of zero are zero (as in
  exact arithmetic, and in IEEE arithmetic on finite values).
\<close>

theorem loop2_diagonal_zero:
  fixes N :: "'a::zero numpy"
  assumes "has_shape X n d"
    and "\<And>a. a \<in> set (concat X) \<Longrightarrow> np_sub N a a = 0"
    and "np_pow2 N 0 = 0" and "np_sum N (replicate d 0) = 0" and "np_sqrt N 0 = 0"
  shows "\<exists>M. loop2 N X = Inr M \<and> (\<forall>i<n. M ! i ! i = 0)"
proof -
  have n: "length X = n" using assms(1) by (simp add: has_shape_def)
  have "spec_entry N (X ! i) (X ! i) = 0" if "i < n" for i
  proof -
    have len: "length (X ! i) = d"
      using that has_shape_nth[OF assms(1)] by simp
    have "np_pow2 N (np_sub N (X ! i ! k) (X ! i ! k)) = 0" if "k < d" for k
    proof -
      have "X ! i ! k \<in> set (concat X)"
        using \<open>i < n\<close> \<open>k < d\<close> len n by (auto intro!: bexI[of _ "X ! i"])
      then show ?thesis
        using assms(2,3) by simp
    qed
    then have "map (\<lambda>k. np_pow2 N (np_sub N (X ! i ! k) (X ! i ! k))) [0..<d] = replicate d 0"
      by (intro nth_equalityI) simp_all
    then show ?thesis
      using assms(4,5) by (simp only: spec_entry_def len)
  qed
  then show ?thesis
    using loop2_spec[OF assms(1), of N] n by (simp add: spec_matrix_nth)
qed

theorem loop2_diagonal_zero_witness:
  "has_shape [[0, 0], [3, 4 :: real]] 2 2 \<and>
   (\<forall>a :: real. np_sub exact a a = 0) \<and>
   np_pow2 exact 0 = 0 \<and> np_sum exact (replicate 2 0) = 0 \<and> np_sqrt exact 0 = 0 \<and>
   (\<exists>M. loop2 exact [[0, 0], [3, 4]] = Inr M \<and> M ! 0 ! 0 = 0 \<and> M ! 1 ! 1 = 0)"
proof -
  have h: "np_sub exact a a = 0" "np_pow2 exact 0 = 0" "np_sum exact (replicate 2 0) = 0"
    "np_sqrt exact 0 = 0" for a :: real
    by (simp_all add: exact_def sum_list_replicate)
  then show ?thesis
    using loop2_diagonal_zero[OF two_points, of exact] two_points by auto
qed

text \<open>
  C7. A single row is a valid input: for \<open>D = [[0, 0]]\<close>, \<open>loop2\<close> returns the 1-by-1 zero
  matrix \<open>[[0]]\<close> and raises nothing, given that zero minus zero, the square of zero, the sum
  of two zeros and the square root of zero are zero.
\<close>

theorem single_row_zero_matrix:
  fixes N :: "'a::zero numpy"
  assumes "np_sub N 0 0 = 0" and "np_pow2 N 0 = 0" and "np_sum N [0, 0] = 0"
    and "np_sqrt N 0 = 0"
  shows "loop2 N [[0, 0]] = Inr [[0]]"
  using assms by (simp add: loop2_def ufunc2_def set2_def empty2_def)

theorem single_row_zero_matrix_witness:
  "np_sub exact 0 0 = 0 \<and> np_pow2 exact 0 = 0 \<and> np_sum exact [0, 0] = 0 \<and> np_sqrt exact 0 = 0
   \<and> loop2 exact [[0, 0]] = Inr [[0]]"
proof -
  have h: "np_sub exact 0 0 = 0" "np_pow2 exact 0 = 0" "np_sum exact [0, 0] = 0"
    "np_sqrt exact 0 = 0"
    by (simp_all add: exact_def)
  then show ?thesis
    using single_row_zero_matrix[of exact] by simp
qed

text \<open>
  C8. For an empty dataset (no rows) \<open>loop1\<close>, \<open>loop2\<close> and \<open>broadcast1\<close> raise nothing and
  return the empty 0-by-0 matrix: their loops over \<open>range(0)\<close> have no iteration.
\<close>

theorem empty_dataset_returns_empty:
  "loop1 N [] = Inr [] \<and> loop2 N [] = Inr [] \<and> broadcast1 N [] = Inr []"
  by (simp add: loop1_def loop2_def broadcast1_def empty2_def)

text \<open>
  C9. When \<open>y\<close> has at least as many elements as \<open>x\<close>, \<open>eucl_dist(x, y)\<close> raises nothing and
  returns \<open>sqrt(sum over i in [0, len(x)) of (x[i] - y[i])^2)\<close>; the elements of \<open>y\<close> from
  index \<open>len(x)\<close> on are ignored, so any \<open>y'\<close> with the same first \<open>len(x)\<close> elements gives the
  same result.
\<close>

theorem eucl_dist_ignores_tail:
  assumes "length x \<le> length y"
  shows "eucl_dist N x y =
           Inr (np_sqrt N (np_sum N (map (\<lambda>i. np_scalar_pow2 N (np_sub N (x ! i) (y ! i))) [0..<length x])))
         \<and> (\<forall>y'. length x \<le> length y' \<and> take (length x) y' = take (length x) y
                \<longrightarrow> eucl_dist N x y' = eucl_dist N x y)"
proof -
  have tail: "scalar_entry N x y' = scalar_entry N x y"
    if "take (length x) y' = take (length x) y" for y'
  proof -
    have "y' ! k = y ! k" if "k < length x" for k
      using that \<open>take (length x) y' = take (length x) y\<close> by (metis nth_take)
    then have "map (\<lambda>k. np_scalar_pow2 N (np_sub N (x ! k) (y' ! k))) [0..<length x]
                = map (\<lambda>k. np_scalar_pow2 N (np_sub N (x ! k) (y ! k))) [0..<length x]"
      by simp
    then show ?thesis
      by (simp only: scalar_entry_def)
  qed
  have "eucl_dist N x y' = eucl_dist N x y"
    if "length x \<le> length y'" "take (length x) y' = take (length x) y" for y'
    using that assms tail[of y'] by (simp add: eucl_dist_spec)
  moreover have "eucl_dist N x y =
      Inr (np_sqrt N (np_sum N (map (\<lambda>i. np_scalar_pow2 N (np_sub N (x ! i) (y ! i))) [0..<length x])))"
    using assms by (simp add: eucl_dist_spec scalar_entry_def)
  ultimately show ?thesis
    by blast
qed

theorem eucl_dist_ignores_tail_witness:
  "length [3, 0 :: real] \<le> length [0, 4, 7 :: real]
   \<and> eucl_dist exact [3, 0] [0, 4, 7] = Inr 5
   \<and> eucl_dist exact [3, 0] [0, 4, 100, 1] = eucl_dist exact [3, 0] [0, 4, 7]"
proof -
  have two: "[0..<2] = [0, 1]"
    by (simp add: upt_rec[of _ "numeral _"])
  show ?thesis
    using eucl_dist_ignores_tail[of "[3, 0]" "[0, 4, 7]" exact]
    by (simp add: two exact_def sqrt_25)
qed

text \<open>
  C10. For two vectors of the same length the loop product \<open>mult_loop(x, y)\<close> equals the
  vectorized product \<open>mult_vect(x, y)\<close> element for element: both are the vector \<open>z\<close> with
  \<open>z[i] = x[i] * y[i]\<close>.
\<close>

theorem mult_loop_is_mult_vect:
  assumes "length x = length y"
  shows "mult_loop N x y = mult_vect N x y
         \<and> mult_vect N x y = Inr (map (\<lambda>i. np_mul N (x ! i) (y ! i)) [0..<length x])"
proof -
  have "mult_loop N x y
          = Inr (map (\<lambda>i. np_mul N (x ! i) (y ! i)) [0..<length x]
                   @ drop (length x) (empty1 N (length x)))"
    unfolding mult_loop_def using assms by (intro for_in_fill) (auto simp: empty1_def)
  then show ?thesis
    using assms by (simp add: mult_vect_def ufunc2_same_length empty1_def)
qed

theorem mult_loop_is_mult_vect_witness:
  "length [1, 2, 3 :: real] = length [4, 5, 6 :: real]
   \<and> mult_loop exact [1, 2, 3] [4, 5, 6] = Inr [4, 10, 18]
   \<and> mult_vect exact [1, 2, 3] [4, 5, 6] = Inr [4, 10, 18]"
proof -
  have three: "[0..<3] = [0, 1, 2]"
    by (simp add: upt_rec[of _ "numeral _"])
  show ?thesis
    using mult_loop_is_mult_vect[of "[1, 2, 3]" "[4, 5, 6]" exact]
    by (simp add: three exact_def)
qed

section \<open>The distances in exact arithmetic\<close>

lemma minkowski_upto:
  fixes a b :: "nat \<Rightarrow> real"
  shows "sqrt (sum_list (map (\<lambda>k. (a k + b k) * (a k + b k)) [0..<d]))
       \<le> sqrt (sum_list (map (\<lambda>k. a k * a k) [0..<d]))
         + sqrt (sum_list (map (\<lambda>k. b k * b k) [0..<d]))"
proof (induction d)
  case 0
  show ?case by simp
next
  case (Suc d)
  let ?C = "sum_list (map (\<lambda>k. (a k + b k) * (a k + b k)) [0..<d])"
  let ?A = "sum_list (map (\<lambda>k. a k * a k) [0..<d])"
  let ?B = "sum_list (map (\<lambda>k. b k * b k) [0..<d])"
  have nonneg: "0 \<le> ?A" "0 \<le> ?B" "0 \<le> ?C"
    by (auto intro!: sum_list_nonneg)
  have "?C = (sqrt ?C)\<^sup>2"
    using nonneg by simp
  also have "\<dots> \<le> (sqrt ?A + sqrt ?B)\<^sup>2"
    using Suc.IH nonneg by (intro power_mono) simp_all
  finally have "sqrt (?C + (a d + b d)\<^sup>2) \<le> sqrt ((sqrt ?A + sqrt ?B)\<^sup>2 + (a d + b d)\<^sup>2)"
    by simp
  also have "\<dots> \<le> sqrt ((sqrt ?A)\<^sup>2 + (a d)\<^sup>2) + sqrt ((sqrt ?B)\<^sup>2 + (b d)\<^sup>2)"
    by (rule real_sqrt_sum_squares_triangle_ineq)
  also have "\<dots> = sqrt (?A + a d * a d) + sqrt (?B + b d * b d)"
    using nonneg by (simp add: power2_eq_square)
  finally show ?case
    by (simp add: power2_eq_square)
qed

lemma exact_entry_triangle:
  assumes "length x = d" and "length y = d" and "length z = d"
  shows "spec_entry exact x z \<le> spec_entry exact x y + spec_entry exact y z"
proof -
  have "map (\<lambda>k. (x ! k - z ! k) * (x ! k - z ! k)) [0..<d]
      = map (\<lambda>k. ((x ! k - y ! k) + (y ! k - z ! k)) * ((x ! k - y ! k) + (y ! k - z ! k))) [0..<d]"
    by simp
  then show ?thesis
    using minkowski_upto[of "\<lambda>k. x ! k - y ! k" "\<lambda>k. y ! k - z ! k" d] assms
    by (simp add: spec_entry_def exact_def)
qed

text \<open>
  C6, as amended. Read in exact real arithmetic, the matrix \<open>M\<close> that \<open>loop2\<close> returns on a
  well-formed dataset of shape \<open>(n, d)\<close> obeys the triangle inequality
  \<open>M[i][k] \<le> M[i][j] + M[j][k]\<close> for all \<open>i\<close>, \<open>j\<close>, \<open>k\<close> below \<open>n\<close>. The proof uses that the
  primitives are exact; rounded \<open>float64\<close> results are only near the exact ones.
\<close>

theorem loop2_exact_triangle:
  assumes "has_shape X n d"
  shows "\<exists>M. loop2 exact X = Inr M \<and>
           (\<forall>i<n. \<forall>j<n. \<forall>k<n. M ! i ! k \<le> M ! i ! j + M ! j ! k)"
proof -
  have n: "length X = n" using assms by (simp add: has_shape_def)
  have "spec_entry exact (X ! i) (X ! k)
          \<le> spec_entry exact (X ! i) (X ! j) + spec_entry exact (X ! j) (X ! k)"
    if "i < n" "j < n" "k < n" for i j k
    using that has_shape_nth[OF assms] by (intro exact_entry_triangle[of _ d]) simp_all
  then show ?thesis
    using loop2_spec[OF assms, of exact] n by (simp add: spec_matrix_nth)
qed

theorem loop2_exact_triangle_witness:
  "has_shape [[0], [1], [3 :: real]] 3 1 \<and>
   (\<exists>M. loop2 exact [[0], [1], [3]] = Inr M \<and> M = [[0, 1, 3], [1, 0, 2], [3, 2, 0]]
        \<and> M ! 0 ! 2 \<le> M ! 0 ! 1 + M ! 1 ! 2 \<and> M ! 0 ! 1 \<le> M ! 0 ! 2 + M ! 2 ! 1)"
proof -
  have shape: "has_shape [[0], [1], [3 :: real]] 3 1"
    by (simp add: has_shape_def)
  have three: "[0..<3] = [0, 1, 2]"
    by (simp add: upt_rec[of _ "numeral _"])
  have sq: "sqrt 4 = 2" "sqrt 9 = 3"
    by (rule real_sqrt_unique; simp)+
  have val: "loop2 exact [[0], [1], [3]] = Inr [[0, 1, 3], [1, 0, 2], [3, 2, 0]]"
    by (simp add: loop2_def ufunc2_def empty2_def set2_def three Let_def exact_def sq)
  obtain M where M: "loop2 exact [[0], [1], [3]] = Inr M"
    and tri: "\<forall>i<3. \<forall>j<3. \<forall>k<3. M ! i ! k \<le> M ! i ! j + M ! j ! k"
    using loop2_exact_triangle[OF shape] by blast
  have "M ! 0 ! 2 \<le> M ! 0 ! 1 + M ! 1 ! 2" "M ! 0 ! 1 \<le> M ! 0 ! 2 + M ! 2 ! 1"
    using tri by simp_all
  then show ?thesis
    using M val shape by simp
qed

text \<open>
  C6, as the specification states it, fails: on the dataset
  \<open>[[1.0], [-(2**-54 + 2**-56)], [-0.5 - 1.5 * 2**-52]]\<close> the \<open>float64\<close> results are
  \<open>M[0][1] = 1\<close>, \<open>M[1][2] = 0.5 + 2**-52\<close> and \<open>M[0][2] = 1.5 + 2**-51\<close>, and
  \<open>M[0][2]\<close> exceeds \<open>M[0][1] + M[1][2] = 1.5 + 2**-52\<close>.
\<close>

theorem float64_triangle_fails:
  "has_shape triangle_data 3 1
   \<and> loop2 float64_triangle triangle_data
       = Inr [[0, 1, 3377699720527873 / 2251799813685248],
              [1, 0, 2251799813685249 / 4503599627370496],
              [3377699720527873 / 2251799813685248, 2251799813685249 / 4503599627370496, 0]]
   \<and> (case loop2 float64_triangle triangle_data of
         Inl e \<Rightarrow> False
       | Inr M \<Rightarrow> \<not> M ! 0 ! 2 \<le> M ! 0 ! 1 + M ! 1 ! 2)"
proof -
  have three: "[0..<3] = [0, 1, 2]"
    by (simp add: upt_rec[of _ "numeral _"])
  have "loop2 float64_triangle triangle_data
       = Inr [[0, 1, 3377699720527873 / 2251799813685248],
              [1, 0, 2251799813685249 / 4503599627370496],
              [3377699720527873 / 2251799813685248, 2251799813685249 / 4503599627370496, 0]]"
    by (simp add: loop2_def ufunc2_def empty2_def set2_def three Let_def
        triangle_data_def float64_triangle_def tabulated_def)
  moreover have "has_shape triangle_data 3 1"
    by (simp add: has_shape_def triangle_data_def)
  ultimately show ?thesis
    by simp
qed

section \<open>The tabulated results are roundings\<close>

text \<open>
  Each tabulated \<open>float64\<close> result lies within half a unit in the last place of the exact
  result of its operation, so it is the nearest \<open>float64\<close>; the scalar power of \<open>0.2551\<close> is
  the exception, one unit in the last place below the exact square, as the C library
  returns it. The bound for a square root \<open>r\<close> of \<open>s\<close> is stated on the squares.
\<close>

lemma float64_squares_rounded:
  "\<bar>np_scalar_pow2 float64_squares (2297736529884427 / 9007199254740992) - (2297736529884427 / 9007199254740992) * (2297736529884427 / 9007199254740992)\<bar> \<le> 1 / 2 ^ 56"
  "\<bar>np_pow2 float64_squares (2297736529884427 / 9007199254740992) - (2297736529884427 / 9007199254740992) * (2297736529884427 / 9007199254740992)\<bar> \<le> 1 / 2 ^ 57"
  "\<bar>np_sum float64_squares [2344610355094069 / 36028797018963968, 1 / 4] - (2344610355094069 / 36028797018963968 + 1 / 4)\<bar> \<le> 1 / 2 ^ 55"
  "\<bar>np_sum float64_squares [4689220710188139 / 72057594037927936, 1 / 4] - (4689220710188139 / 72057594037927936 + 1 / 4)\<bar> \<le> 1 / 2 ^ 55"
  "(np_sqrt float64_squares (2837952402458765 / 9007199254740992) - 1 / 2 ^ 54)\<^sup>2 \<le> 2837952402458765 / 9007199254740992
     \<and> 2837952402458765 / 9007199254740992 \<le> (np_sqrt float64_squares (2837952402458765 / 9007199254740992) + 1 / 2 ^ 54)\<^sup>2"
  "(np_sqrt float64_squares (5675904804917531 / 18014398509481984) - 1 / 2 ^ 54)\<^sup>2 \<le> 5675904804917531 / 18014398509481984
     \<and> 5675904804917531 / 18014398509481984 \<le> (np_sqrt float64_squares (5675904804917531 / 18014398509481984) + 1 / 2 ^ 54)\<^sup>2"
  by (simp_all add: float64_squares_def tabulated_def power2_eq_square)

lemma float64_triangle_rounded:
  "\<bar>np_sub float64_triangle 1 (- (5 / 72057594037927936)) - (1 - (- (5 / 72057594037927936)))\<bar> \<le> 1 / 2 ^ 53"
  "\<bar>np_sub float64_triangle (- (5 / 72057594037927936)) (- (4503599627370499 / 9007199254740992)) - ((- (5 / 72057594037927936)) - (- (4503599627370499 / 9007199254740992)))\<bar> \<le> 1 / 2 ^ 54"
  "\<bar>np_sub float64_triangle 1 (- (4503599627370499 / 9007199254740992)) - (1 - (- (4503599627370499 / 9007199254740992)))\<bar> \<le> 1 / 2 ^ 53"
  "\<bar>np_pow2 float64_triangle (2251799813685249 / 4503599627370496) - (2251799813685249 / 4503599627370496) * (2251799813685249 / 4503599627370496)\<bar> \<le> 1 / 2 ^ 55"
  "\<bar>np_pow2 float64_triangle (3377699720527873 / 2251799813685248) - (3377699720527873 / 2251799813685248) * (3377699720527873 / 2251799813685248)\<bar> \<le> 1 / 2 ^ 52"
  "(np_sqrt float64_triangle (1125899906842625 / 4503599627370496) - 1 / 2 ^ 54)\<^sup>2 \<le> 1125899906842625 / 4503599627370496
     \<and> 1125899906842625 / 4503599627370496 \<le> (np_sqrt float64_triangle (1125899906842625 / 4503599627370496) + 1 / 2 ^ 54)\<^sup>2"
  "(np_sqrt float64_triangle (5066549580791811 / 2251799813685248) - 1 / 2 ^ 53)\<^sup>2 \<le> 5066549580791811 / 2251799813685248
     \<and> 5066549580791811 / 2251799813685248 \<le> (np_sqrt float64_triangle (5066549580791811 / 2251799813685248) + 1 / 2 ^ 53)\<^sup>2"
  by (simp_all add: float64_triangle_def tabulated_def power2_eq_square)

end
